theory Spec2Isabelle
  imports Complex_Main "HOL-Library.AList" "HOL-Library.Sublist"
begin

section \<open>The unified inference proxy (ai-inference-proxy/app.py)\<close>

text \<open>
  The proxy is modelled by explicit state passing. The module-level globals
  \<open>ollama_models_cache\<close> and \<open>ollama_cache_timestamp\<close> are the fields of a state
  record; two further fields are logs that the source does not keep but performs: the
  outbound HTTP calls in the order they are issued, and the Prometheus counters that are
  incremented. What an upstream answers is a parameter of the model. Exceptions are
  values: every \<open>raise\<close> of the source is a branch that returns \<open>Inl\<close>.

  Python floats are only carried from the request to the outbound body and never computed
  with; they are modelled by \<open>real\<close>. Python dictionaries keep insertion order, so a
  dictionary whose key list is read is an association list updated with
  \<open>AList.update\<close> (replace in place, else append).
\<close>

subsection \<open>Data model\<close>

record ChatMessage =
  role :: string
  content :: string

record ChatRequest =
  model :: string
  messages :: "ChatMessage list"
  temperature :: "real option"
  max_tokens :: "int option"
  top_p :: "real option"
  frequency_penalty :: "real option"
  presence_penalty :: "real option"
  stream :: "bool option"

text \<open>The two exception classes the handlers distinguish: \<open>HTTPException\<close> with its
  status code and detail, and any other exception (transport fault, undecodable body).\<close>

datatype exn = HTTPException int string | OtherException

text \<open>What an upstream call gives: a response with status code, body text and the body
  parsed as JSON (\<open>None\<close> when \<open>response.json()\<close> would raise), or a transport fault
  raised by the HTTP client.\<close>

datatype 'a http_result = Response int string "'a option" | TransportFault

text \<open>One descriptor of the model-listing body; \<open>tag_name\<close> is its \<open>"name"\<close> key.\<close>

record model_descriptor =
  tag_name :: "string option"
  details :: string

datatype opt_value = OFloat real | OInt int

record ollama_request =
  o_model :: string
  o_messages :: "ChatMessage list"
  o_stream :: "bool option"
  o_options :: "(string \<times> opt_value) list option"

text \<open>A JSON object of the local runtime: the single-shot chat response and each parsed
  line of a stream. \<open>message\<close> is \<open>None\<close> when the key is absent, \<open>Some None\<close> when the
  message has no \<open>"content"\<close>.\<close>

record ollama_object =
  message :: "string option option"
  is_done :: "bool option"
  prompt_eval_count :: "int option"
  eval_count :: "int option"

record usage_counts =
  prompt_tokens :: int
  completion_tokens :: int
  total_tokens :: int

record canonical_response =
  response_id :: string
  response_model :: string
  created :: int
  message_content :: string
  finish_reason :: "string option"
  usage :: "usage_counts option"

datatype call = TagsCall | LocalChat ollama_request | LocalStream ollama_request
  | CloudChat ChatRequest | CloudStream ChatRequest

datatype metric =
    BACKEND_SELECTION string string
  | FALLBACK_COUNT string string
  | REQUEST_COUNT string string string
  | TOKEN_USAGE string string string int
  | OLLAMA_MODELS_CACHE nat

record proxy_state =
  ollama_models_cache :: "(string \<times> model_descriptor) list"
  ollama_cache_timestamp :: "int option"
  calls :: "call list"
  metrics :: "metric list"

text \<open>Times are microseconds, the resolution of \<open>datetime\<close>; the time-to-live of 60
  seconds is then 60000000.\<close>

definition OLLAMA_CACHE_TTL :: int where
  "OLLAMA_CACHE_TTL = 60000000"

definition log_call :: "call \<Rightarrow> proxy_state \<Rightarrow> proxy_state" where
  "log_call c st = st\<lparr>calls := calls st @ [c]\<rparr>"

definition inc :: "metric \<Rightarrow> proxy_state \<Rightarrow> proxy_state" where
  "inc m st = st\<lparr>metrics := metrics st @ [m]\<rparr>"

subsection \<open>Backend catalog\<close>

text \<open>\<open>s.split(":")[0]\<close>: the part of \<open>s\<close> before the first colon.\<close>

definition base_name :: "string \<Rightarrow> string" where
  "base_name s = takeWhile (\<lambda>c. c \<noteq> CHR '':'') s"

text \<open>The loop of \<open>get_ollama_models\<close> that fills the new dictionary: base name first,
  then the full name.\<close>

fun collect_models ::
  "(string \<times> model_descriptor) list \<Rightarrow> model_descriptor list
    \<Rightarrow> (string \<times> model_descriptor) list" where
  "collect_models models [] = models"
| "collect_models models (m # ms) =
     (let model_name = (case tag_name m of None \<Rightarrow> [] | Some n \<Rightarrow> n)
      in collect_models
           (AList.update model_name m (AList.update (base_name model_name) m models)) ms)"

text \<open>The cache check at the head of \<open>get_ollama_models\<close>.\<close>

definition cache_fresh :: "int \<Rightarrow> proxy_state \<Rightarrow> bool" where
  "cache_fresh now st =
     (case ollama_cache_timestamp st of
        None \<Rightarrow> False
      | Some ts \<Rightarrow> now - ts < OLLAMA_CACHE_TTL \<and> ollama_models_cache st \<noteq> [])"

definition get_ollama_models ::
  "int \<Rightarrow> model_descriptor list http_result \<Rightarrow> proxy_state
    \<Rightarrow> string list \<times> proxy_state" where
  "get_ollama_models now reply st =
     (if cache_fresh now st then (map fst (ollama_models_cache st), st)
      else
        (let st1 = log_call TagsCall st in
         case reply of
           TransportFault \<Rightarrow> ([], st1)
         | Response status_code txt body \<Rightarrow>
             if status_code = 200 then
               (case body of
                  None \<Rightarrow> ([], st1)
                | Some data \<Rightarrow>
                    (let models = collect_models [] data
                     in (map fst models,
                         inc (OLLAMA_MODELS_CACHE (length models))
                           (st1\<lparr>ollama_models_cache := models,
                                ollama_cache_timestamp := Some now\<rparr>))))
             else ([], st1)))"

definition detect_model_backend ::
  "int \<Rightarrow> model_descriptor list http_result \<Rightarrow> string \<Rightarrow> proxy_state
    \<Rightarrow> string \<times> proxy_state" where
  "detect_model_backend now reply model_name st =
     (let (ollama_models, st1) = get_ollama_models now reply st in
      if model_name \<in> set ollama_models then (''local'', st1)
      else if base_name model_name \<in> set ollama_models then (''local'', st1)
      else (''cloud'', st1))"

text \<open>A refresh fails on a transport fault, a status other than 200, or a body that
  does not decode.\<close>

definition refresh_fails :: "model_descriptor list http_result \<Rightarrow> bool" where
  "refresh_fails reply =
     (case reply of
        TransportFault \<Rightarrow> True
      | Response status_code txt body \<Rightarrow> status_code \<noteq> 200 \<or> body = None)"

subsection \<open>Protocol translator\<close>

text \<open>\<open>request_data["options"] = request_data.get("options", {})\<close> followed by the
  assignment of one key.\<close>

definition set_option :: "string \<Rightarrow> opt_value \<Rightarrow> ollama_request \<Rightarrow> ollama_request" where
  "set_option k v request_data =
     request_data\<lparr>o_options :=
       Some (AList.update k v
         (case o_options request_data of None \<Rightarrow> [] | Some opts \<Rightarrow> opts))\<rparr>"

definition transform_ollama_request :: "ChatRequest \<Rightarrow> ollama_request" where
  "transform_ollama_request chat_request =
     (let rd0 = \<lparr>o_model = base_name (model chat_request),
                 o_messages = messages chat_request,
                 o_stream = stream chat_request,
                 o_options = None\<rparr>;
          rd1 = (case temperature chat_request of
                   None \<Rightarrow> rd0
                 | Some t \<Rightarrow> set_option ''temperature'' (OFloat t) rd0);
          rd2 = (case max_tokens chat_request of
                   None \<Rightarrow> rd1
                 | Some n \<Rightarrow> set_option ''num_predict'' (OInt n) rd1);
          rd3 = (case top_p chat_request of
                   None \<Rightarrow> rd2
                 | Some p \<Rightarrow> set_option ''top_p'' (OFloat p) rd2)
      in rd3)"

text \<open>\<open>d.get(key, 0)\<close> for the two evaluation counters.\<close>

definition get0 :: "int option \<Rightarrow> int" where
  "get0 v = (case v of None \<Rightarrow> 0 | Some n \<Rightarrow> n)"

text \<open>The completion identifier is random and the creation time is read from the clock
  in the source; both are parameters here.\<close>

definition transform_ollama_response ::
  "ollama_object \<Rightarrow> string \<Rightarrow> string \<Rightarrow> int \<Rightarrow> canonical_response" where
  "transform_ollama_response ollama_response model_name rid now =
     (let msg = (case message ollama_response of
                   None \<Rightarrow> []
                 | Some m \<Rightarrow> (case m of None \<Rightarrow> [] | Some c \<Rightarrow> c));
          prompt = get0 (prompt_eval_count ollama_response);
          completion = get0 (eval_count ollama_response)
      in \<lparr>response_id = rid,
          response_model = model_name,
          created = now,
          message_content = msg,
          finish_reason =
            (if is_done ollama_response = Some True then Some ''stop'' else None),
          usage = Some \<lparr>prompt_tokens = prompt,
                         completion_tokens = completion,
                         total_tokens = prompt + completion\<rparr>\<rparr>)"

subsection \<open>Streaming relay\<close>

text \<open>A line of the local runtime's stream: empty, not decodable as JSON, or a JSON
  object. The events the relay yields: a chunk with its optional content delta and finish
  reason, the usage chunk, and the \<open>[DONE]\<close> marker; chunks carry the completion
  identifier and the model.\<close>

datatype line = Blank | Malformed | Parsed ollama_object

datatype stream_event =
    Chunk string string "string option" "string option"
  | UsageChunk string string usage_counts
  | DoneMarker

text \<open>The \<open>async for\<close> loop of \<open>handle_ollama_stream\<close>, with \<open>full_content\<close> as its
  state; \<open>break\<close> ends the recursion.\<close>

fun ollama_stream_loop ::
  "string \<Rightarrow> string \<Rightarrow> string \<Rightarrow> line list \<Rightarrow> stream_event list" where
  "ollama_stream_loop rid mdl full_content [] = []"
| "ollama_stream_loop rid mdl full_content (Blank # ls) =
     ollama_stream_loop rid mdl full_content ls"
| "ollama_stream_loop rid mdl full_content (Malformed # ls) =
     ollama_stream_loop rid mdl full_content ls"
| "ollama_stream_loop rid mdl full_content (Parsed d # ls) =
     (let content_delta = (case message d of
                             Some (Some new_content) \<Rightarrow>
                               drop (length full_content) new_content
                           | _ \<Rightarrow> []);
          full_content' = (case message d of
                             Some (Some new_content) \<Rightarrow> new_content
                           | _ \<Rightarrow> full_content);
          dn = (is_done d = Some True)
      in (if content_delta \<noteq> [] \<or> dn
          then [Chunk rid mdl
                  (if content_delta \<noteq> [] then Some content_delta else None)
                  (if dn then Some ''stop'' else None)]
          else [])
         @ (if dn
            then [UsageChunk rid mdl
                    \<lparr>prompt_tokens = get0 (prompt_eval_count d),
                     completion_tokens = get0 (eval_count d),
                     total_tokens = get0 (prompt_eval_count d) + get0 (eval_count d)\<rparr>,
                  DoneMarker]
            else ollama_stream_loop rid mdl full_content' ls))"

datatype 'l stream_reply = StreamResponse int string "'l list" | StreamFault

subsection \<open>Configuration and upstreams\<close>

record config =
  OPENROUTER_API_KEY :: "string option"
  DEFAULT_BACKEND :: string

record upstreams =
  tags_reply :: "model_descriptor list http_result"
  local_chat :: "ollama_request \<Rightarrow> ollama_object http_result"
  local_stream :: "ollama_request \<Rightarrow> line stream_reply"
  cloud_chat :: "ChatRequest \<Rightarrow> canonical_response http_result"
  cloud_stream :: "ChatRequest \<Rightarrow> string stream_reply"

text \<open>Python truthiness of an optional string: \<open>None\<close> and \<open>""\<close> are false.\<close>

definition truthy :: "string option \<Rightarrow> bool" where
  "truthy v = (case v of None \<Rightarrow> False | Some s \<Rightarrow> s \<noteq> [])"

subsection \<open>Backend handlers\<close>

definition handle_ollama_request ::
  "upstreams \<Rightarrow> int \<Rightarrow> string \<Rightarrow> ChatRequest \<Rightarrow> proxy_state
    \<Rightarrow> (exn + canonical_response) \<times> proxy_state" where
  "handle_ollama_request up now rid chat_request st =
     (let ollama_req = transform_ollama_request chat_request;
          st1 = log_call (LocalChat ollama_req) st
      in case local_chat up ollama_req of
           TransportFault \<Rightarrow> (Inl OtherException, st1)
         | Response status_code txt body \<Rightarrow>
             if status_code \<noteq> 200 then (Inl (HTTPException status_code txt), st1)
             else (case body of
                     None \<Rightarrow> (Inl OtherException, st1)
                   | Some response_data \<Rightarrow>
                       (Inr (transform_ollama_response response_data
                               (model chat_request) rid now), st1)))"

definition handle_ollama_stream ::
  "upstreams \<Rightarrow> string \<Rightarrow> ChatRequest \<Rightarrow> proxy_state
    \<Rightarrow> (exn + stream_event list) \<times> proxy_state" where
  "handle_ollama_stream up rid chat_request st =
     (let ollama_req = transform_ollama_request chat_request;
          st1 = log_call (LocalStream ollama_req) st
      in case local_stream up ollama_req of
           StreamFault \<Rightarrow> (Inl OtherException, st1)
         | StreamResponse status_code txt ls \<Rightarrow>
             if status_code \<noteq> 200 then (Inl (HTTPException status_code txt), st1)
             else (Inr (ollama_stream_loop rid (model chat_request) [] ls), st1))"

text \<open>The cloud body is forwarded as it is; \<open>chat_request.dict(exclude_none=True)\<close> is
  the request itself.\<close>

definition handle_openrouter_request ::
  "config \<Rightarrow> upstreams \<Rightarrow> ChatRequest \<Rightarrow> proxy_state
    \<Rightarrow> (exn + canonical_response) \<times> proxy_state" where
  "handle_openrouter_request cfg up chat_request st =
     (if \<not> truthy (OPENROUTER_API_KEY cfg)
      then (Inl (HTTPException 500 ''OpenRouter API key not configured''), st)
      else
        (let st1 = log_call (CloudChat chat_request) st
         in case cloud_chat up chat_request of
              TransportFault \<Rightarrow> (Inl OtherException, st1)
            | Response status_code txt body \<Rightarrow>
                if status_code \<noteq> 200 then (Inl (HTTPException status_code txt), st1)
                else (case body of
                        None \<Rightarrow> (Inl OtherException, st1)
                      | Some response_data \<Rightarrow> (Inr response_data, st1))))"

subsection \<open>Completion orchestrator\<close>

text \<open>\<open>backend or DEFAULT_BACKEND\<close>; \<open>backend\<close> is \<open>None\<close> when the query parameter is
  absent.\<close>

definition backend_or_default :: "config \<Rightarrow> string option \<Rightarrow> string" where
  "backend_or_default cfg backend =
     (case backend of
        None \<Rightarrow> DEFAULT_BACKEND cfg
      | Some b \<Rightarrow> if b = [] then DEFAULT_BACKEND cfg else b)"

text \<open>The body of the inner \<open>try\<close> of the non-streaming path, up to the assignment of
  \<open>response_data\<close>. It returns the exception raised or the response data, the value
  \<open>selected_backend\<close> has at that point, and the state.\<close>

definition dispatch ::
  "config \<Rightarrow> upstreams \<Rightarrow> int \<Rightarrow> string \<Rightarrow> ChatRequest \<Rightarrow> string \<Rightarrow> proxy_state
    \<Rightarrow> (exn + canonical_response) \<times> string \<times> proxy_state" where
  "dispatch cfg up now rid chat_request selected_backend st =
     (if selected_backend = ''local'' then
        (let (r, st1) = handle_ollama_request up now rid chat_request st
         in (r, selected_backend, st1))
      else if \<not> truthy (OPENROUTER_API_KEY cfg) then
        (if selected_backend = ''cloud''
         then (Inl (HTTPException 500 ''OpenRouter API key not configured''),
               selected_backend, st)
         else (Inl (HTTPException 404
                      (''Model '' @ model chat_request
                         @ '' not found locally and cloud not configured'')),
               selected_backend, inc (FALLBACK_COUNT ''local'' ''cloud'') st))
      else
        (case handle_openrouter_request cfg up chat_request st of
           (Inr response_data, st1) \<Rightarrow> (Inr response_data, selected_backend, st1)
         | (Inl OtherException, st1) \<Rightarrow> (Inl OtherException, selected_backend, st1)
         | (Inl (HTTPException status_code detail), st1) \<Rightarrow>
             if selected_backend = ''auto'' then
               (case handle_ollama_request up now rid chat_request
                       (inc (FALLBACK_COUNT ''cloud'' ''local'') st1) of
                  (Inr response_data, st2) \<Rightarrow> (Inr response_data, ''local'', st2)
                | (Inl e, st2) \<Rightarrow> (Inl e, selected_backend, st2))
             else (Inl (HTTPException status_code detail), selected_backend, st1)))"

text \<open>The counters recorded after a successful call. The duration histogram and the log
  lines have no influence on the result and are left out.\<close>

definition record_success ::
  "string \<Rightarrow> ChatRequest \<Rightarrow> canonical_response \<Rightarrow> proxy_state \<Rightarrow> proxy_state" where
  "record_success selected_backend chat_request response_data st =
     (let st1 = inc (REQUEST_COUNT selected_backend (model chat_request) ''success'') st
      in case usage response_data of
           None \<Rightarrow> st1
         | Some u \<Rightarrow>
             inc (TOKEN_USAGE selected_backend (model chat_request) ''completion''
                    (completion_tokens u))
               (inc (TOKEN_USAGE selected_backend (model chat_request) ''prompt''
                       (prompt_tokens u)) st1))"

text \<open>What the endpoint returns: a JSON body, the local stream (the generator's events,
  or the exception it raises at its start), or the cloud stream, whose lines are not
  modelled.\<close>

datatype outcome =
    JsonBody canonical_response
  | StreamingLocal "exn + stream_event list"
  | StreamingCloud

definition chat_completions ::
  "config \<Rightarrow> upstreams \<Rightarrow> int \<Rightarrow> string \<Rightarrow> ChatRequest \<Rightarrow> string option \<Rightarrow> proxy_state
    \<Rightarrow> (exn + outcome) \<times> proxy_state" where
  "chat_completions cfg up now rid chat_request backend st =
     (let selected0 = backend_or_default cfg backend;
          (selected_backend, st1) =
            (if selected0 = ''auto'' then
               (let (b, s) = detect_model_backend now (tags_reply up)
                               (model chat_request) st
                in (b, inc (BACKEND_SELECTION b ''auto'') s))
             else (selected0, inc (BACKEND_SELECTION selected0 ''manual'') st))
      in if stream chat_request = Some True then
           (if selected_backend = ''local'' then
              (let (r, st2) = handle_ollama_stream up rid chat_request st1
               in (Inr (StreamingLocal r), st2))
            else if \<not> truthy (OPENROUTER_API_KEY cfg) then
              (Inl (HTTPException 500 ''OpenRouter API key not configured''), st1)
            else
              (let st2 = log_call (CloudStream chat_request) st1
               in case cloud_stream up chat_request of
                    StreamFault \<Rightarrow> (Inl OtherException, st2)
                  | StreamResponse status_code txt ls \<Rightarrow>
                      if status_code \<noteq> 200
                      then (Inl (HTTPException status_code txt), st2)
                      else (Inr StreamingCloud, st2)))
         else
           (case dispatch cfg up now rid chat_request selected_backend st1 of
              (Inr response_data, sel, st2) \<Rightarrow>
                (Inr (JsonBody response_data),
                 record_success sel chat_request response_data st2)
            | (Inl (HTTPException status_code detail), sel, st2) \<Rightarrow>
                (Inl (HTTPException status_code detail), st2)
            | (Inl OtherException, sel, st2) \<Rightarrow>
                (Inl (HTTPException 500 ''Internal server error''),
                 inc (REQUEST_COUNT sel (model chat_request) ''error'') st2)))"

subsection \<open>The relay as the design describes it\<close>

text \<open>The design's relay remembers the text it has emitted so far, \<open>emitted\<close>, and gives
  as delta the part of the new text past the length of \<open>emitted\<close>; an event is forwarded
  when the delta is not empty or the event signals completion; on completion one usage
  event and one termination marker follow and the relay stops.\<close>

fun spec_relay ::
  "string \<Rightarrow> string \<Rightarrow> string \<Rightarrow> line list \<Rightarrow> stream_event list" where
  "spec_relay rid mdl emitted [] = []"
| "spec_relay rid mdl emitted (Blank # ls) = spec_relay rid mdl emitted ls"
| "spec_relay rid mdl emitted (Malformed # ls) = spec_relay rid mdl emitted ls"
| "spec_relay rid mdl emitted (Parsed d # ls) =
     (let delta = (case message d of
                     Some (Some new_text) \<Rightarrow> drop (length emitted) new_text
                   | _ \<Rightarrow> []);
          dn = (is_done d = Some True)
      in (if delta \<noteq> [] \<or> dn
          then [Chunk rid mdl (if delta \<noteq> [] then Some delta else None)
                  (if dn then Some ''stop'' else None)]
          else [])
         @ (if dn
            then [UsageChunk rid mdl
                    \<lparr>prompt_tokens = get0 (prompt_eval_count d),
                     completion_tokens = get0 (eval_count d),
                     total_tokens = get0 (prompt_eval_count d) + get0 (eval_count d)\<rparr>,
                  DoneMarker]
            else spec_relay rid mdl (emitted @ delta) ls))"

text \<open>A stream carries cumulative full text when every text extends the one before it,
  starting from what has been emitted.\<close>

fun cumulative :: "string \<Rightarrow> line list \<Rightarrow> bool" where
  "cumulative prev [] = True"
| "cumulative prev (Blank # ls) = cumulative prev ls"
| "cumulative prev (Malformed # ls) = cumulative prev ls"
| "cumulative prev (Parsed d # ls) =
     (case message d of
        Some (Some new_text) \<Rightarrow> prefix prev new_text \<and> cumulative new_text ls
      | _ \<Rightarrow> cumulative prev ls)"

text \<open>The first event of a stream that signals completion, if any.\<close>

fun first_done :: "line list \<Rightarrow> ollama_object option" where
  "first_done [] = None"
| "first_done (Blank # ls) = first_done ls"
| "first_done (Malformed # ls) = first_done ls"
| "first_done (Parsed d # ls) =
     (if is_done d = Some True then Some d else first_done ls)"

fun is_chunk :: "stream_event \<Rightarrow> bool" where
  "is_chunk (Chunk rid mdl delta fin) = True"
| "is_chunk _ = False"

fun usage_consistent :: "stream_event \<Rightarrow> bool" where
  "usage_consistent (UsageChunk rid mdl u) =
     (total_tokens u = prompt_tokens u + completion_tokens u)"
| "usage_consistent _ = True"

text \<open>The options object of an outbound request, empty when the key is absent, and the
  key set of the cache.\<close>

definition options_of :: "ollama_request \<Rightarrow> (string \<times> opt_value) list" where
  "options_of rd = (case o_options rd of None \<Rightarrow> [] | Some opts \<Rightarrow> opts)"

definition keys_of :: "proxy_state \<Rightarrow> string set" where
  "keys_of st = fst ` set (ollama_models_cache st)"

subsection \<open>Concrete inputs\<close>

definition llama3_descriptor :: model_descriptor where
  "llama3_descriptor = \<lparr>tag_name = Some ''llama3:latest'', details = ''8B''\<rparr>"

definition st_empty :: proxy_state where
  "st_empty = \<lparr>ollama_models_cache = [], ollama_cache_timestamp = None,
               calls = [], metrics = []\<rparr>"

definition st_stale :: proxy_state where
  "st_stale = \<lparr>ollama_models_cache =
                 [(''llama3'', llama3_descriptor), (''llama3:latest'', llama3_descriptor)],
               ollama_cache_timestamp = Some 0, calls = [], metrics = []\<rparr>"

definition req_gpt :: ChatRequest where
  "req_gpt = \<lparr>model = ''gpt-4'',
              messages = [\<lparr>role = ''user'', content = ''hello''\<rparr>],
              temperature = Some (7 / 10), max_tokens = None, top_p = None,
              frequency_penalty = None, presence_penalty = None,
              stream = Some False\<rparr>"

definition local_ok :: ollama_object where
  "local_ok = \<lparr>message = Some (Some ''hi''), is_done = Some True,
               prompt_eval_count = Some 4, eval_count = Some 2\<rparr>"

text \<open>Upstreams where the model listing and the local chat succeed and the cloud chat
  answers with the given status.\<close>

definition up_cloud_fails :: "int \<Rightarrow> upstreams" where
  "up_cloud_fails code =
     \<lparr>tags_reply = Response 200 [] (Some [llama3_descriptor]),
      local_chat = (\<lambda>r. Response 200 [] (Some local_ok)),
      local_stream = (\<lambda>r. StreamFault),
      cloud_chat = (\<lambda>r. Response code ''upstream failure'' None),
      cloud_stream = (\<lambda>r. StreamFault)\<rparr>"

definition cfg_key :: config where
  "cfg_key = \<lparr>OPENROUTER_API_KEY = Some ''sk-or-test'', DEFAULT_BACKEND = ''auto''\<rparr>"

definition cfg_nokey :: config where
  "cfg_nokey = \<lparr>OPENROUTER_API_KEY = None, DEFAULT_BACKEND = ''auto''\<rparr>"

definition text_event :: "string \<Rightarrow> ollama_object" where
  "text_event t = \<lparr>message = Some (Some t), is_done = Some False,
                   prompt_eval_count = None, eval_count = None\<rparr>"

definition final_event :: "string \<Rightarrow> int option \<Rightarrow> int option \<Rightarrow> ollama_object" where
  "final_event t p c = \<lparr>message = Some (Some t), is_done = Some True,
                        prompt_eval_count = p, eval_count = c\<rparr>"

definition hi_stream :: "line list" where
  "hi_stream = [Parsed (text_event ''Hi''), Parsed (text_event ''Hi there''),
                Parsed (final_event ''Hi there!'' (Some 5) None)]"

lemmas ex_defs = st_empty_def st_stale_def req_gpt_def local_ok_def up_cloud_fails_def
  cfg_key_def cfg_nokey_def llama3_descriptor_def

lemmas cat_defs = get_ollama_models_def detect_model_backend_def cache_fresh_def
  OLLAMA_CACHE_TTL_def log_call_def inc_def base_name_def refresh_fails_def

lemmas orch_defs = chat_completions_def dispatch_def handle_openrouter_request_def
  handle_ollama_request_def backend_or_default_def truthy_def record_success_def
  transform_ollama_request_def set_option_def transform_ollama_response_def get0_def

section \<open>Catalog\<close>

lemma get_models_result:
  "fst (get_ollama_models now reply st) =
     (if cache_fresh now st \<or> \<not> refresh_fails reply
      then map fst (ollama_models_cache (snd (get_ollama_models now reply st)))
      else [])"
  by (auto simp: get_ollama_models_def refresh_fails_def log_call_def inc_def Let_def
      split: http_result.splits option.splits)

lemma calls_get_models:
  "calls (snd (get_ollama_models now reply st)) =
     (if cache_fresh now st then calls st else calls st @ [TagsCall])"
  by (auto simp: get_ollama_models_def log_call_def inc_def Let_def
      split: http_result.splits option.splits)

text \<open>
  Claim C3, as stated: under Auto the selection is Local exactly when the model or its
  base name is a key of the catalog cache. This fails when the cache has expired and the
  refresh fails: \<open>get_ollama_models\<close> then returns the empty list while the cache keeps
  its entries, so a model that is a key of the cache (before and after the lookup) is
  sent to the cloud.
\<close>

theorem detect_stale_cache_counterexample:
  "fst (detect_model_backend 61000000 (Response 500 ''error'' None) ''llama3'' st_stale)
     = ''cloud''
   \<and> ''llama3'' \<in> keys_of st_stale
   \<and> ''llama3'' \<in> keys_of (snd (detect_model_backend 61000000
                                 (Response 500 ''error'' None) ''llama3'' st_stale))"
  by (simp add: ex_defs cat_defs keys_of_def Let_def)

text \<open>
  Claim C3, amended: under Auto the selection is Local exactly when the catalog lookup
  was served from the fresh cache or by a successful refresh and the model or its base
  name is a key of the cache after the lookup; it is Cloud otherwise, in particular
  whenever the refresh fails.
\<close>

theorem detect_model_backend_keys:
  "fst (detect_model_backend now reply m st) =
     (if (cache_fresh now st \<or> \<not> refresh_fails reply)
         \<and> (m \<in> keys_of (snd (detect_model_backend now reply m st))
            \<or> base_name m \<in> keys_of (snd (detect_model_backend now reply m st)))
      then ''local'' else ''cloud'')"
proof -
  obtain l s where g: "get_ollama_models now reply st = (l, s)"
    by (cases "get_ollama_models now reply st")
  have s: "snd (detect_model_backend now reply m st) = s"
    using g by (simp add: detect_model_backend_def)
  have l: "l = (if cache_fresh now st \<or> \<not> refresh_fails reply
                then map fst (ollama_models_cache s) else [])"
    using get_models_result [of now reply st] unfolding g by (auto split: if_splits)
  show ?thesis
    unfolding s using g l by (auto simp: detect_model_backend_def keys_of_def)
qed

theorem detect_model_backend_keys_witness:
  "\<not> refresh_fails (Response 200 [] (Some [llama3_descriptor]))
   \<and> fst (detect_model_backend 61000000 (Response 200 [] (Some [llama3_descriptor]))
            ''llama3:8b'' st_stale) = ''local''
   \<and> fst (detect_model_backend 61000000 (Response 200 [] (Some [llama3_descriptor]))
            ''gpt-4'' st_stale) = ''cloud''
   \<and> fst (detect_model_backend 61000000 TransportFault ''llama3'' st_stale) = ''cloud''"
  using detect_model_backend_keys
          [of 61000000 "Response 200 [] (Some [llama3_descriptor])" "''llama3:8b''" st_stale]
        detect_model_backend_keys
          [of 61000000 "Response 200 [] (Some [llama3_descriptor])" "''gpt-4''" st_stale]
        detect_model_backend_keys [of 61000000 TransportFault "''llama3''" st_stale]
  by (simp add: ex_defs cat_defs keys_of_def Let_def)

text \<open>
  Claim C9: a catalog refresh that fails (a status other than 200 from the model-listing
  endpoint, a body that does not decode, or a transport fault) leaves the cached entries
  and their timestamp as they were.
\<close>

theorem failed_refresh_keeps_cache:
  "refresh_fails reply \<Longrightarrow>
   ollama_models_cache (snd (get_ollama_models now reply st)) = ollama_models_cache st \<and>
   ollama_cache_timestamp (snd (get_ollama_models now reply st))
     = ollama_cache_timestamp st"
  by (auto simp: get_ollama_models_def refresh_fails_def log_call_def Let_def
      split: http_result.splits option.splits)

theorem failed_refresh_keeps_cache_witness:
  "refresh_fails (Response 503 ''down'' None) \<and> refresh_fails TransportFault
   \<and> calls (snd (get_ollama_models 61000000 (Response 503 ''down'' None) st_stale))
       = [TagsCall]
   \<and> ollama_models_cache (snd (get_ollama_models 61000000 (Response 503 ''down'' None)
                                 st_stale))
       = [(''llama3'', llama3_descriptor), (''llama3:latest'', llama3_descriptor)]
   \<and> ollama_cache_timestamp (snd (get_ollama_models 61000000 (Response 503 ''down'' None)
                                    st_stale)) = Some 0
   \<and> ollama_models_cache (snd (get_ollama_models 61000000 TransportFault st_stale))
       = [(''llama3'', llama3_descriptor), (''llama3:latest'', llama3_descriptor)]"
  using failed_refresh_keeps_cache [of "Response 503 ''down'' None" 61000000 st_stale]
        failed_refresh_keeps_cache [of TransportFault 61000000 st_stale]
  by (simp add: ex_defs cat_defs Let_def)

text \<open>
  Claim C10: with an empty cache every lookup issues one model-listing call, whatever the
  age of the last refresh; a lookup that issues no call has a non-empty cache younger
  than the time-to-live; and after a successful refresh that listed no model (which
  stamps the cache with the current time) the next lookup, at any time, calls again.
\<close>

theorem empty_cache_always_refreshes:
  "(ollama_models_cache st = [] \<longrightarrow>
      calls (snd (get_ollama_models now reply st)) = calls st @ [TagsCall])
   \<and> (calls (snd (get_ollama_models now reply st)) = calls st \<longrightarrow>
      ollama_models_cache st \<noteq> []
      \<and> (\<exists>ts. ollama_cache_timestamp st = Some ts \<and> now - ts < OLLAMA_CACHE_TTL))
   \<and> (\<not> cache_fresh now st \<longrightarrow>
      ollama_models_cache (snd (get_ollama_models now (Response 200 txt (Some [])) st)) = []
      \<and> ollama_cache_timestamp (snd (get_ollama_models now (Response 200 txt (Some [])) st))
           = Some now
      \<and> calls (snd (get_ollama_models now' reply
                      (snd (get_ollama_models now (Response 200 txt (Some [])) st))))
           = calls st @ [TagsCall, TagsCall])"
proof (intro conjI impI)
  assume "ollama_models_cache st = []"
  then show "calls (snd (get_ollama_models now reply st)) = calls st @ [TagsCall]"
    by (simp add: calls_get_models cache_fresh_def split: option.splits)
next
  assume a: "calls (snd (get_ollama_models now reply st)) = calls st"
  then have f: "cache_fresh now st"
    by (simp add: calls_get_models split: if_splits)
  then show "ollama_models_cache st \<noteq> []"
    by (auto simp: cache_fresh_def split: option.splits)
  from f show "\<exists>ts. ollama_cache_timestamp st = Some ts \<and> now - ts < OLLAMA_CACHE_TTL"
    by (auto simp: cache_fresh_def split: option.splits)
next
  assume n: "\<not> cache_fresh now st"
  let ?st1 = "snd (get_ollama_models now (Response 200 txt (Some [])) st)"
  from n show c: "ollama_models_cache ?st1 = []"
    by (simp add: get_ollama_models_def log_call_def inc_def Let_def)
  from n show "ollama_cache_timestamp ?st1 = Some now"
    by (simp add: get_ollama_models_def log_call_def inc_def Let_def)
  from c have "\<not> cache_fresh now' ?st1"
    by (simp add: cache_fresh_def split: option.splits)
  then show "calls (snd (get_ollama_models now' reply ?st1)) = calls st @ [TagsCall, TagsCall]"
    using n by (simp add: calls_get_models)
qed

theorem empty_cache_always_refreshes_witness:
  "ollama_models_cache st_empty = []
   \<and> calls (snd (get_ollama_models 5 (Response 200 [] (Some [])) st_empty)) = [TagsCall]
   \<and> \<not> cache_fresh 5 st_empty
   \<and> calls (snd (get_ollama_models 6 (Response 200 [] (Some []))
                   (snd (get_ollama_models 5 (Response 200 [] (Some [])) st_empty))))
        = [TagsCall, TagsCall]
   \<and> calls (snd (get_ollama_models 1000 TransportFault st_stale)) = calls st_stale
   \<and> ollama_models_cache st_stale \<noteq> []"
  using empty_cache_always_refreshes [of st_empty 5 "Response 200 [] (Some [])" "[]" 6]
        empty_cache_always_refreshes [of st_stale 1000 TransportFault "[]" 6]
  by (simp add: ex_defs cat_defs Let_def)

section \<open>Orchestrator\<close>

text \<open>
  Under Auto, \<open>selected_backend\<close> is overwritten with the detected backend before the
  non-streaming path runs, so the test \<open>selected_backend == "auto"\<close> in the handler of a
  cloud failure is never true: a failing cloud call is surfaced and the local backend is
  not called.
\<close>

lemma auto_never_falls_back:
  assumes "backend_or_default cfg backend = ''auto''"
      and "stream req \<noteq> Some True"
      and "truthy (OPENROUTER_API_KEY cfg)"
      and "fst (detect_model_backend now (tags_reply up) (model req) st) = ''cloud''"
      and "cloud_chat up req = Response code txt body"
      and "code \<noteq> 200"
  shows "fst (chat_completions cfg up now rid req backend st) = Inl (HTTPException code txt)
       \<and> calls (snd (chat_completions cfg up now rid req backend st))
           = calls (snd (detect_model_backend now (tags_reply up) (model req) st))
               @ [CloudChat req]"
proof -
  obtain b s where d: "detect_model_backend now (tags_reply up) (model req) st = (b, s)"
    by (cases "detect_model_backend now (tags_reply up) (model req) st")
  with assms(4) have b: "b = ''cloud''" by simp
  show ?thesis
    using assms(1,2,3,5,6) d b
    by (simp add: chat_completions_def dispatch_def handle_openrouter_request_def
        log_call_def inc_def Let_def)
qed

text \<open>
  Claim C1: a non-streaming request under Auto that resolved to Cloud and whose cloud call
  fails is retried once on the local backend and the local result is returned. The code
  at this input: Auto, model \<open>gpt-4\<close> not in the catalog, cloud answers 503, local would
  answer 200. The 503 is surfaced; the calls are the model listing and the cloud chat, no
  local chat; no fallback counter is incremented.
\<close>

theorem auto_cloud_failure_is_surfaced:
  "chat_completions cfg_key (up_cloud_fails 503) 1000 ''chatcmpl-1'' req_gpt
       (Some ''auto'') st_empty =
     (Inl (HTTPException 503 ''upstream failure''),
      \<lparr>ollama_models_cache =
         [(''llama3'', llama3_descriptor), (''llama3:latest'', llama3_descriptor)],
       ollama_cache_timestamp = Some 1000,
       calls = [TagsCall, CloudChat req_gpt],
       metrics = [OLLAMA_MODELS_CACHE 2, BACKEND_SELECTION ''cloud'' ''auto'']\<rparr>)"
  by (simp add: ex_defs cat_defs orch_defs Let_def)

text \<open>
  Claim C2: a non-streaming request with Cloud selected explicitly, whose cloud call
  answers with a status other than 200, fails with an upstream error of that status and
  body, and the only outbound call is the cloud chat: no local chat, no model listing.
\<close>

theorem explicit_cloud_failure_surfaced:
  assumes "backend_or_default cfg backend = ''cloud''"
      and "stream req \<noteq> Some True"
      and "truthy (OPENROUTER_API_KEY cfg)"
      and "cloud_chat up req = Response code txt body"
      and "code \<noteq> 200"
  shows "fst (chat_completions cfg up now rid req backend st) = Inl (HTTPException code txt)
       \<and> calls (snd (chat_completions cfg up now rid req backend st))
           = calls st @ [CloudChat req]"
  using assms
  by (simp add: chat_completions_def dispatch_def handle_openrouter_request_def
      log_call_def inc_def Let_def)

theorem explicit_cloud_failure_surfaced_witness:
  "fst (chat_completions cfg_key (up_cloud_fails 500) 1000 ''chatcmpl-1'' req_gpt
          (Some ''cloud'') st_stale)
      = Inl (HTTPException 500 ''upstream failure'')
   \<and> calls (snd (chat_completions cfg_key (up_cloud_fails 500) 1000 ''chatcmpl-1'' req_gpt
                   (Some ''cloud'') st_stale))
      = [CloudChat req_gpt]"
  using explicit_cloud_failure_surfaced
          [of cfg_key "Some ''cloud''" req_gpt "up_cloud_fails 500" 500
              "''upstream failure''" None 1000 "''chatcmpl-1''" st_stale]
  by (simp add: ex_defs backend_or_default_def truthy_def)

text \<open>
  Claim C8: a non-streaming request under Auto whose model is not in the catalog, with no
  cloud credential configured, fails with a not-found error naming the model. The code at
  this input (Auto, model \<open>gpt-4\<close> not in the catalog, no key): status 500 with the detail
  \<open>OpenRouter API key not configured\<close>; the model is not named and no fallback counter
  is incremented.
\<close>

theorem auto_unconfigured_cloud_is_500:
  "chat_completions cfg_nokey (up_cloud_fails 503) 1000 ''chatcmpl-1'' req_gpt
       (Some ''auto'') st_empty =
     (Inl (HTTPException 500 ''OpenRouter API key not configured''),
      \<lparr>ollama_models_cache =
         [(''llama3'', llama3_descriptor), (''llama3:latest'', llama3_descriptor)],
       ollama_cache_timestamp = Some 1000,
       calls = [TagsCall],
       metrics = [OLLAMA_MODELS_CACHE 2, BACKEND_SELECTION ''cloud'' ''auto'']\<rparr>)"
  by (simp add: ex_defs cat_defs orch_defs Let_def)

section \<open>Streaming relay\<close>

lemma usage_chunk_of_done:
  "first_done ls = Some d \<Longrightarrow>
   UsageChunk rid mdl
     \<lparr>prompt_tokens = get0 (prompt_eval_count d),
      completion_tokens = get0 (eval_count d),
      total_tokens = get0 (prompt_eval_count d) + get0 (eval_count d)\<rparr>
     \<in> set (ollama_stream_loop rid mdl full ls)"
  by (induction rid mdl full ls rule: ollama_stream_loop.induct)
     (auto simp: Let_def split: if_splits)

lemma loop_usage_consistent:
  "\<forall>e \<in> set (ollama_stream_loop rid mdl full ls). usage_consistent e"
  by (induction rid mdl full ls rule: ollama_stream_loop.induct) (auto simp: Let_def)

text \<open>
  Claim C4: the response built from a local-backend object has prompt and completion
  counts taken from the runtime's counters, 0 for a counter that is absent, and a total
  that is their sum; every usage event of a relayed stream has a total equal to the sum
  of its two counts, and the usage event of a completed stream carries the counters of
  the completing event with the same defaults.
\<close>

theorem usage_total_is_sum:
  "usage (transform_ollama_response d m rid now) =
     Some \<lparr>prompt_tokens = (case prompt_eval_count d of None \<Rightarrow> 0 | Some n \<Rightarrow> n),
           completion_tokens = (case eval_count d of None \<Rightarrow> 0 | Some n \<Rightarrow> n),
           total_tokens = (case prompt_eval_count d of None \<Rightarrow> 0 | Some n \<Rightarrow> n)
                        + (case eval_count d of None \<Rightarrow> 0 | Some n \<Rightarrow> n)\<rparr>
   \<and> (\<forall>e \<in> set (ollama_stream_loop rid mdl full ls). usage_consistent e)
   \<and> (first_done ls = Some d \<longrightarrow>
        UsageChunk rid mdl
          \<lparr>prompt_tokens = (case prompt_eval_count d of None \<Rightarrow> 0 | Some n \<Rightarrow> n),
           completion_tokens = (case eval_count d of None \<Rightarrow> 0 | Some n \<Rightarrow> n),
           total_tokens = (case prompt_eval_count d of None \<Rightarrow> 0 | Some n \<Rightarrow> n)
                        + (case eval_count d of None \<Rightarrow> 0 | Some n \<Rightarrow> n)\<rparr>
          \<in> set (ollama_stream_loop rid mdl full ls))"
proof (intro conjI impI)
  show "usage (transform_ollama_response d m rid now) =
     Some \<lparr>prompt_tokens = (case prompt_eval_count d of None \<Rightarrow> 0 | Some n \<Rightarrow> n),
           completion_tokens = (case eval_count d of None \<Rightarrow> 0 | Some n \<Rightarrow> n),
           total_tokens = (case prompt_eval_count d of None \<Rightarrow> 0 | Some n \<Rightarrow> n)
                        + (case eval_count d of None \<Rightarrow> 0 | Some n \<Rightarrow> n)\<rparr>"
    by (simp add: transform_ollama_response_def get0_def Let_def)
next
  show "\<forall>e \<in> set (ollama_stream_loop rid mdl full ls). usage_consistent e"
    by (rule loop_usage_consistent)
next
  assume "first_done ls = Some d"
  from usage_chunk_of_done [OF this, of rid mdl full]
  show "UsageChunk rid mdl
          \<lparr>prompt_tokens = (case prompt_eval_count d of None \<Rightarrow> 0 | Some n \<Rightarrow> n),
           completion_tokens = (case eval_count d of None \<Rightarrow> 0 | Some n \<Rightarrow> n),
           total_tokens = (case prompt_eval_count d of None \<Rightarrow> 0 | Some n \<Rightarrow> n)
                        + (case eval_count d of None \<Rightarrow> 0 | Some n \<Rightarrow> n)\<rparr>
          \<in> set (ollama_stream_loop rid mdl full ls)"
    by (simp add: get0_def)
qed

theorem usage_total_is_sum_witness:
  "first_done hi_stream = Some (final_event ''Hi there!'' (Some 5) None)
   \<and> usage (transform_ollama_response (final_event ''Hi there!'' (Some 5) None)
               ''llama3'' ''chatcmpl-1'' 1000)
       = Some \<lparr>prompt_tokens = 5, completion_tokens = 0, total_tokens = 5\<rparr>
   \<and> UsageChunk ''chatcmpl-1'' ''llama3''
        \<lparr>prompt_tokens = 5, completion_tokens = 0, total_tokens = 5\<rparr>
       \<in> set (ollama_stream_loop ''chatcmpl-1'' ''llama3'' [] hi_stream)
   \<and> usage_consistent (UsageChunk ''chatcmpl-1'' ''llama3''
        \<lparr>prompt_tokens = 5, completion_tokens = 0, total_tokens = 5\<rparr>)"
  using usage_total_is_sum
          [where d = "final_event ''Hi there!'' (Some 5) None" and m = "''llama3''"
             and rid = "''chatcmpl-1''" and now = 1000 and mdl = "''llama3''"
             and full = "[]" and ls = hi_stream]
  by (simp add: hi_stream_def text_event_def final_event_def)

text \<open>
  Claim C5: on a stream whose events carry cumulative full text the relay of the code,
  which cuts the new text at the length of the previous text, yields the events of the
  design's relay, which cuts it at the length of the text emitted so far; for the
  cumulative texts \<open>Hi\<close>, \<open>Hi there\<close>, \<open>Hi there!\<close>, the last one completing the
  stream, the deltas are \<open>Hi\<close>, \<open> there\<close>, \<open>!\<close> in that order, followed by one
  usage event and one termination marker.
\<close>

theorem relay_emits_suffix_deltas:
  "(cumulative full ls \<longrightarrow>
      ollama_stream_loop rid mdl full ls = spec_relay rid mdl full ls)
   \<and> ollama_stream_loop rid mdl []
        [Parsed (text_event ''Hi''), Parsed (text_event ''Hi there''),
         Parsed (final_event ''Hi there!'' p c)]
      = [Chunk rid mdl (Some ''Hi'') None,
         Chunk rid mdl (Some '' there'') None,
         Chunk rid mdl (Some ''!'') (Some ''stop''),
         UsageChunk rid mdl \<lparr>prompt_tokens = get0 p, completion_tokens = get0 c,
                             total_tokens = get0 p + get0 c\<rparr>,
         DoneMarker]"
proof (intro conjI impI)
  assume "cumulative full ls"
  then show "ollama_stream_loop rid mdl full ls = spec_relay rid mdl full ls"
  proof (induction rid mdl full ls rule: ollama_stream_loop.induct)
    case (4 rid mdl full_content d ls)
    then show ?case
      by (auto simp: Let_def prefix_def split: option.splits)
  qed simp_all
next
  show "ollama_stream_loop rid mdl []
        [Parsed (text_event ''Hi''), Parsed (text_event ''Hi there''),
         Parsed (final_event ''Hi there!'' p c)]
      = [Chunk rid mdl (Some ''Hi'') None,
         Chunk rid mdl (Some '' there'') None,
         Chunk rid mdl (Some ''!'') (Some ''stop''),
         UsageChunk rid mdl \<lparr>prompt_tokens = get0 p, completion_tokens = get0 c,
                             total_tokens = get0 p + get0 c\<rparr>,
         DoneMarker]"
    by (simp add: text_event_def final_event_def Let_def)
qed

theorem relay_emits_suffix_deltas_witness:
  "cumulative [] hi_stream
   \<and> spec_relay ''chatcmpl-1'' ''llama3'' [] hi_stream
      = [Chunk ''chatcmpl-1'' ''llama3'' (Some ''Hi'') None,
         Chunk ''chatcmpl-1'' ''llama3'' (Some '' there'') None,
         Chunk ''chatcmpl-1'' ''llama3'' (Some ''!'') (Some ''stop''),
         UsageChunk ''chatcmpl-1'' ''llama3''
           \<lparr>prompt_tokens = 5, completion_tokens = 0, total_tokens = 5\<rparr>,
         DoneMarker]"
proof -
  have c: "cumulative [] hi_stream"
    by (simp add: hi_stream_def text_event_def final_event_def)
  have e: "ollama_stream_loop ''chatcmpl-1'' ''llama3'' [] hi_stream
      = [Chunk ''chatcmpl-1'' ''llama3'' (Some ''Hi'') None,
         Chunk ''chatcmpl-1'' ''llama3'' (Some '' there'') None,
         Chunk ''chatcmpl-1'' ''llama3'' (Some ''!'') (Some ''stop''),
         UsageChunk ''chatcmpl-1'' ''llama3''
           \<lparr>prompt_tokens = 5, completion_tokens = 0, total_tokens = 5\<rparr>,
         DoneMarker]"
    using relay_emits_suffix_deltas [of "[]" hi_stream "''chatcmpl-1''" "''llama3''" "Some 5" None]
    by (simp add: hi_stream_def get0_def)
  from relay_emits_suffix_deltas [of "[]" hi_stream "''chatcmpl-1''" "''llama3''" "Some 5" None] c e
  show ?thesis by simp
qed

text \<open>The hypothesis is needed: on incremental fragments the cut is taken at the length
  of the previous fragment.\<close>

lemma incremental_fragments_garbled:
  "ollama_stream_loop rid mdl []
     [Parsed (text_event ''Hi''), Parsed (text_event '' there''),
      Parsed (final_event ''!'' p c)]
   = [Chunk rid mdl (Some ''Hi'') None,
      Chunk rid mdl (Some ''here'') None,
      Chunk rid mdl None (Some ''stop''),
      UsageChunk rid mdl \<lparr>prompt_tokens = get0 p, completion_tokens = get0 c,
                          total_tokens = get0 p + get0 c\<rparr>,
      DoneMarker]"
  by (simp add: text_event_def final_event_def Let_def)

text \<open>
  Claim C6: a stream that reaches completion is relayed as content chunks, then exactly
  one usage event carrying the counters of the completing event, then exactly one
  termination marker, and nothing after it; a stream that does not reach completion
  yields content chunks only.
\<close>

theorem completed_stream_ends_with_usage_and_marker:
  "(first_done ls = Some d \<longrightarrow>
      (\<exists>pre. ollama_stream_loop rid mdl full ls =
         pre @ [UsageChunk rid mdl
                  \<lparr>prompt_tokens = get0 (prompt_eval_count d),
                   completion_tokens = get0 (eval_count d),
                   total_tokens = get0 (prompt_eval_count d) + get0 (eval_count d)\<rparr>,
                DoneMarker]
         \<and> (\<forall>e \<in> set pre. is_chunk e)))
   \<and> (first_done ls = None \<longrightarrow>
      (\<forall>e \<in> set (ollama_stream_loop rid mdl full ls). is_chunk e))"
proof (induction rid mdl full ls rule: ollama_stream_loop.induct)
  case (4 rid mdl full_content d' ls)
  show ?case
  proof (cases "is_done d' = Some True")
    case True
    then show ?thesis
      by (auto simp: Let_def intro: exI [where x = "[Chunk rid mdl x y]" for x y] exI [where x = "[]"])
  next
    case False
    let ?full' = "case message d' of Some (Some new_content) \<Rightarrow> new_content | _ \<Rightarrow> full_content"
    let ?delta = "case message d' of Some (Some new_content) \<Rightarrow> drop (length full_content) new_content | _ \<Rightarrow> []"
    let ?hd = "if ?delta \<noteq> [] then [Chunk rid mdl (Some ?delta) None] else []"
    have step: "ollama_stream_loop rid mdl full_content (Parsed d' # ls)
                  = ?hd @ ollama_stream_loop rid mdl ?full' ls"
      using False by (simp add: Let_def)
    have fd: "first_done (Parsed d' # ls) = first_done ls"
      using False by simp
    have ih: "(first_done ls = Some d \<longrightarrow>
      (\<exists>pre. ollama_stream_loop rid mdl ?full' ls =
         pre @ [UsageChunk rid mdl
                  \<lparr>prompt_tokens = get0 (prompt_eval_count d),
                   completion_tokens = get0 (eval_count d),
                   total_tokens = get0 (prompt_eval_count d) + get0 (eval_count d)\<rparr>,
                DoneMarker]
         \<and> (\<forall>e \<in> set pre. is_chunk e)))
     \<and> (first_done ls = None \<longrightarrow>
      (\<forall>e \<in> set (ollama_stream_loop rid mdl ?full' ls). is_chunk e))"
      using "4.IH" [OF refl refl refl] False by simp
    have hd: "\<forall>e \<in> set ?hd. is_chunk e" by simp
    show ?thesis
    proof (intro conjI impI)
      assume "first_done (Parsed d' # ls) = Some d"
      with fd ih obtain pre where
        p: "ollama_stream_loop rid mdl ?full' ls =
              pre @ [UsageChunk rid mdl
                  \<lparr>prompt_tokens = get0 (prompt_eval_count d),
                   completion_tokens = get0 (eval_count d),
                   total_tokens = get0 (prompt_eval_count d) + get0 (eval_count d)\<rparr>,
                DoneMarker]"
        and q: "\<forall>e \<in> set pre. is_chunk e" by auto
      have "ollama_stream_loop rid mdl full_content (Parsed d' # ls) =
              (?hd @ pre) @ [UsageChunk rid mdl
                  \<lparr>prompt_tokens = get0 (prompt_eval_count d),
                   completion_tokens = get0 (eval_count d),
                   total_tokens = get0 (prompt_eval_count d) + get0 (eval_count d)\<rparr>,
                DoneMarker]"
        unfolding step p by simp
      moreover have "\<forall>e \<in> set (?hd @ pre). is_chunk e" using q hd by auto
      ultimately show "\<exists>pre. ollama_stream_loop rid mdl full_content (Parsed d' # ls) =
         pre @ [UsageChunk rid mdl
                  \<lparr>prompt_tokens = get0 (prompt_eval_count d),
                   completion_tokens = get0 (eval_count d),
                   total_tokens = get0 (prompt_eval_count d) + get0 (eval_count d)\<rparr>,
                DoneMarker]
         \<and> (\<forall>e \<in> set pre. is_chunk e)" by blast
    next
      assume "first_done (Parsed d' # ls) = None"
      with fd ih have "\<forall>e \<in> set (ollama_stream_loop rid mdl ?full' ls). is_chunk e" by simp
      then show "\<forall>e \<in> set (ollama_stream_loop rid mdl full_content (Parsed d' # ls)). is_chunk e"
        unfolding step using hd by auto
    qed
  qed
qed simp_all

theorem completed_stream_ends_with_usage_and_marker_witness:
  "first_done hi_stream = Some (final_event ''Hi there!'' (Some 5) None)
   \<and> ollama_stream_loop ''chatcmpl-1'' ''llama3'' [] hi_stream =
        [Chunk ''chatcmpl-1'' ''llama3'' (Some ''Hi'') None,
         Chunk ''chatcmpl-1'' ''llama3'' (Some '' there'') None,
         Chunk ''chatcmpl-1'' ''llama3'' (Some ''!'') (Some ''stop'')]
        @ [UsageChunk ''chatcmpl-1'' ''llama3''
             \<lparr>prompt_tokens = 5, completion_tokens = 0, total_tokens = 5\<rparr>,
           DoneMarker]
   \<and> first_done [Parsed (text_event ''Hi''), Blank] = None
   \<and> ollama_stream_loop ''chatcmpl-1'' ''llama3'' [] [Parsed (text_event ''Hi''), Blank]
        = [Chunk ''chatcmpl-1'' ''llama3'' (Some ''Hi'') None]"
proof -
  have f: "first_done hi_stream = Some (final_event ''Hi there!'' (Some 5) None)"
    by (simp add: hi_stream_def text_event_def final_event_def)
  have g: "first_done [Parsed (text_event ''Hi''), Blank] = None"
    by (simp add: text_event_def)
  from completed_stream_ends_with_usage_and_marker
         [where ls = hi_stream and d = "final_event ''Hi there!'' (Some 5) None"
            and rid = "''chatcmpl-1''" and mdl = "''llama3''" and full = "[]"]
       completed_stream_ends_with_usage_and_marker
         [where ls = "[Parsed (text_event ''Hi''), Blank]"
            and d = "final_event ''Hi there!'' (Some 5) None"
            and rid = "''chatcmpl-1''" and mdl = "''llama3''" and full = "[]"]
       f g
  show ?thesis
    by (simp add: hi_stream_def text_event_def final_event_def get0_def Let_def)
qed

section \<open>Protocol translator\<close>

text \<open>
  Claim C7: in the outbound request to the local runtime the options object has the key
  \<open>temperature\<close>, \<open>num_predict\<close> or \<open>top_p\<close> exactly when the request has a
  temperature, a maximal token count or a top-p, with that value, and has no other key.
\<close>

theorem options_only_when_present:
  "map_of (options_of (transform_ollama_request r)) ''temperature''
      = map_option OFloat (temperature r)
   \<and> map_of (options_of (transform_ollama_request r)) ''num_predict''
      = map_option OInt (max_tokens r)
   \<and> map_of (options_of (transform_ollama_request r)) ''top_p''
      = map_option OFloat (top_p r)
   \<and> fst ` set (options_of (transform_ollama_request r))
      \<subseteq> {''temperature'', ''num_predict'', ''top_p''}
   \<and> (''temperature'' \<in> fst ` set (options_of (transform_ollama_request r))
        \<longleftrightarrow> temperature r \<noteq> None)
   \<and> (''num_predict'' \<in> fst ` set (options_of (transform_ollama_request r))
        \<longleftrightarrow> max_tokens r \<noteq> None)
   \<and> (''top_p'' \<in> fst ` set (options_of (transform_ollama_request r))
        \<longleftrightarrow> top_p r \<noteq> None)"
  by (cases "temperature r"; cases "max_tokens r"; cases "top_p r")
     (simp_all add: transform_ollama_request_def set_option_def options_of_def)

theorem options_only_when_present_witness:
  "options_of (transform_ollama_request req_gpt) = [(''temperature'', OFloat (7 / 10))]
   \<and> ''temperature'' \<in> fst ` set (options_of (transform_ollama_request req_gpt))
   \<and> ''num_predict'' \<notin> fst ` set (options_of (transform_ollama_request req_gpt))
   \<and> ''top_p'' \<notin> fst ` set (options_of (transform_ollama_request req_gpt))
   \<and> options_of (transform_ollama_request
        (req_gpt\<lparr>temperature := None, max_tokens := Some 64, top_p := Some (9 / 10)\<rparr>))
       = [(''num_predict'', OInt 64), (''top_p'', OFloat (9 / 10))]"
  using options_only_when_present [of req_gpt]
        options_only_when_present
          [of "req_gpt\<lparr>temperature := None, max_tokens := Some 64, top_p := Some (9 / 10)\<rparr>"]
  by (simp add: req_gpt_def transform_ollama_request_def set_option_def options_of_def)

end
